theory Spec2Isabelle
  imports Complex_Main "HOL-Library.Word" "HOL-Library.AList"
begin

section \<open>Values of the Go program\<close>

text \<open>
  Go's \<open>int\<close> (64 bits on the usual targets) is a 64-bit word: \<open>+\<close> and \<open>-\<close> wrap,
  and the comparisons of the source are the signed ones (\<open>word_sless\<close>, \<open>word_sle\<close>).
\<close>

type_synonym go_int = "64 word"

text \<open>
  A \<open>float64\<close> is either a finite value (read as the real number it denotes; the two zeros
  are the same real), an infinity, or NaN. The only operations the library applies to a
  \<open>float64\<close> are the comparisons \<open><\<close>, \<open>>\<close>, \<open><=\<close>: every comparison with NaN is false.
  Not every real is the value of a \<open>float64\<close>: a statement about all \<open>Finite x\<close> covers
  every finite \<open>float64\<close>, and the concrete instances below use values that are exact in
  binary.
\<close>

datatype float64 = Finite real | PosInf | NegInf | NaN

fun float_lt :: "float64 \<Rightarrow> float64 \<Rightarrow> bool" where
  "float_lt NaN _ = False"
| "float_lt _ NaN = False"
| "float_lt (Finite x) (Finite y) = (x < y)"
| "float_lt (Finite _) PosInf = True"
| "float_lt (Finite _) NegInf = False"
| "float_lt PosInf _ = False"
| "float_lt NegInf NegInf = False"
| "float_lt NegInf _ = True"

fun float_le :: "float64 \<Rightarrow> float64 \<Rightarrow> bool" where
  "float_le NaN _ = False"
| "float_le _ NaN = False"
| "float_le (Finite x) (Finite y) = (x \<le> y)"
| "float_le (Finite _) PosInf = True"
| "float_le (Finite _) NegInf = False"
| "float_le PosInf PosInf = True"
| "float_le PosInf _ = False"
| "float_le NegInf _ = True"

fun is_finite :: "float64 \<Rightarrow> bool" where
  "is_finite (Finite _) = True"
| "is_finite _ = False"

text \<open>
  A \<open>time.Time\<close> is the instant it denotes, in nanoseconds since the Unix epoch.
  \<open>t.After(u)\<close> compares instants; \<open>t.UnixMilli()\<close> is an \<open>int64\<close>.
\<close>

type_synonym Time = int

definition After :: "Time \<Rightarrow> Time \<Rightarrow> bool" where
  "After t u = (u < t)"

definition UnixMilli :: "Time \<Rightarrow> 64 word" where
  "UnixMilli t = word_of_int (t div 1000000)"

text \<open>
  A Go string that the library stores in a query or body map: either a string it was given
  (or a literal), or the output of \<open>fmt.Sprintf\<close> with the verb \<open>%d\<close> or \<open>%f\<close>. The digits
  that \<open>fmt\<close> prints are not computed; the rendered value is kept with its verb.
\<close>

datatype gostr = Lit string | Sprintf_d "64 word" | Sprintf_f float64

text \<open>A slice is \<open>nil\<close> (\<open>None\<close>) or holds elements; \<open>len\<close> of the nil slice is 0.\<close>

type_synonym 'a slice = "'a list option"

fun len :: "'a slice \<Rightarrow> nat" where
  "len None = 0"
| "len (Some xs) = length xs"

fun elems :: "'a slice \<Rightarrow> 'a list" where
  "elems None = []"
| "elems (Some xs) = xs"

record Resolution =
  Answer :: go_int
  Pct :: go_int

text \<open>
  A Go map is a list of key/value pairs with distinct keys: \<open>m[k] = v\<close> is
  \<open>AList.update k v m\<close> (it replaces the pair of \<open>k\<close> or adds one), a look-up is
  \<open>map_of m k\<close>. The order of the pairs has no meaning.

  The values the library puts into a \<open>map[string]interface{}\<close> body:
\<close>

datatype jvalue =
    JString string
  | JInt go_int
  | JInt64 "64 word"
  | JFloat float64
  | JBool bool
  | JStrings "string slice"
  | JResolutions "Resolution slice"

text \<open>The bodies handed to \<open>Client.POST\<close>: a \<open>map[string]string\<close> or a \<open>map[string]interface{}\<close>.\<close>

datatype body = StringMap "(string \<times> gostr) list" | AnyMap "(string \<times> jvalue) list"

section \<open>Errors\<close>

text \<open>
  \<open>Errorf0\<close>, \<open>Errorf1\<close> and \<open>Errorf2\<close> are \<open>fmt.Errorf\<close> with no, one and two \<open>%w\<close>
  operands; the string is the format (the values printed by \<open>%v\<close> and \<open>%f\<close> are not
  rendered). \<open>NotAllowed\<close> and \<open>OutOfRange\<close> are the errors of \<open>checkOneOf\<close> and
  \<open>checkInRange\<close>. \<open>External\<close> is an error that comes from \<open>net/http\<close>, \<open>io\<close> or
  \<open>encoding/json\<close>, with its message.
\<close>

datatype error =
    ErrorGETFailed
  | ErrorPOSTFailed
  | ErrorFailedToParseResponse
  | NotAllowed
  | OutOfRange
  | Errorf0 string
  | Errorf1 string error
  | Errorf2 string error error
  | External string

text \<open>
  An error made on the client side from parameter checks alone: it wraps no sentinel and no
  error of the transport or of the JSON codec.
\<close>

fun is_validation :: "error \<Rightarrow> bool" where
  "is_validation NotAllowed = True"
| "is_validation OutOfRange = True"
| "is_validation (Errorf0 _) = True"
| "is_validation (Errorf1 _ e) = is_validation e"
| "is_validation (Errorf2 _ e1 e2) = (is_validation e1 \<and> is_validation e2)"
| "is_validation _ = False"

section \<open>Validation primitives\<close>

text \<open>\<open>checkOneOf\<close>: the loop over \<open>allowed\<close> returns \<open>nil\<close> at the first equal element.\<close>

fun checkOneOf :: "'a \<Rightarrow> 'a list \<Rightarrow> error option" where
  "checkOneOf v [] = Some NotAllowed"
| "checkOneOf v (a # allowed) = (if v = a then None else checkOneOf v allowed)"

text \<open>
  \<open>checkInRange\<close> is generic over \<open>cmp.Ordered\<close>; \<open>lt\<close> is the \<open><\<close> of the type it is
  instantiated at (\<open>value > max\<close> is \<open>max < value\<close>).
\<close>

definition checkInRange :: "('a \<Rightarrow> 'a \<Rightarrow> bool) \<Rightarrow> 'a \<Rightarrow> 'a \<Rightarrow> 'a \<Rightarrow> error option" where
  "checkInRange lt v lo hi = (if lt v lo \<or> lt hi v then Some OutOfRange else None)"

abbreviation checkInRange_int :: "go_int \<Rightarrow> go_int \<Rightarrow> go_int \<Rightarrow> error option" where
  "checkInRange_int \<equiv> checkInRange word_sless"

abbreviation checkInRange_float :: "float64 \<Rightarrow> float64 \<Rightarrow> float64 \<Rightarrow> error option" where
  "checkInRange_float \<equiv> checkInRange float_lt"

section \<open>Transport client\<close>

record request =
  req_method :: string
  req_url :: string
  req_query :: "(string \<times> gostr) list"
  req_headers :: "(string \<times> string) list"
  req_body :: "body option"

text \<open>
  A response as \<open>HTTPClient.Do\<close> returns it: the status code and what \<open>ioutil.ReadAll\<close>
  gives on its body (the bytes, or the message of a read error).
\<close>

record response =
  StatusCode :: nat
  ReadAll :: "string + string"

text \<open>
  The \<open>Client\<close> struct. \<open>HTTPClient\<close> is the behaviour of \<open>HTTPClient.Do\<close>: a response, or
  the message of the error.
\<close>

record Client =
  BaseURL :: string
  APIKey :: string
  HTTPClient :: "request \<Rightarrow> string + response"

text \<open>
  The parts of Go's standard library that the client calls and that are not computed here:
  \<open>url.PathEscape\<close>, the URL check of \<open>http.NewRequest\<close> (\<open>None\<close> when the URL parses, the
  error's message otherwise) and \<open>json.Unmarshal\<close> into the method's result type.
\<close>

record 'r golib =
  url_PathEscape :: "string \<Rightarrow> string"
  http_NewRequest :: "string \<Rightarrow> string option"
  json_Unmarshal :: "string \<Rightarrow> string + 'r"

text \<open>
  The world a call runs in: the clock that \<open>time.Now()\<close> reads, and the requests that were
  handed to \<open>HTTPClient.Do\<close>, oldest first.
\<close>

record world =
  clock :: Time
  sent :: "request list"

definition auth_header :: "Client \<Rightarrow> (string \<times> string) list" where
  "auth_header c = (if APIKey c \<noteq> [] then [(''Authorization'', ''Key '' @ APIKey c)] else [])"

text \<open>
  \<open>json.Marshal\<close> on a body: maps of strings always encode; in a map of \<open>interface{}\<close> a
  \<open>float64\<close> that is NaN or infinite makes it fail (\<open>None\<close> is success).
\<close>

fun unsupported :: "jvalue \<Rightarrow> bool" where
  "unsupported (JFloat f) = (\<not> is_finite f)"
| "unsupported _ = False"

fun json_Marshal :: "body \<Rightarrow> string option" where
  "json_Marshal (StringMap m) = None"
| "json_Marshal (AnyMap m) =
     (if list_ex (\<lambda>(key, v). unsupported v) m then Some ''json: unsupported value''
      else None)"

definition do_request :: "Client \<Rightarrow> request \<Rightarrow> world \<Rightarrow> (error + string) \<times> world" where
  "do_request c req w =
     (let w' = w\<lparr>sent := sent w @ [req]\<rparr> in
      case HTTPClient c req of
        Inl err \<Rightarrow> (Inl (External err), w')
      | Inr resp \<Rightarrow>
          (case ReadAll resp of
             Inl err \<Rightarrow> (Inl (External err), w')
           | Inr bytes \<Rightarrow> (Inr bytes, w')))"

text \<open>
  The request that \<open>GET\<close> builds: the URL is \<open>BaseURL\<close> followed by the endpoint, every
  pair of \<open>params\<close> is added to the query, and the \<open>Authorization\<close> header is set when
  an API key is configured.
\<close>

definition GET_request :: "Client \<Rightarrow> string \<Rightarrow> (string \<times> gostr) list \<Rightarrow> request" where
  "GET_request c endpoint params =
     \<lparr>req_method = ''GET'', req_url = BaseURL c @ endpoint, req_query = params,
      req_headers = auth_header c, req_body = None\<rparr>"

definition GET :: "'r golib \<Rightarrow> Client \<Rightarrow> string \<Rightarrow> (string \<times> gostr) list \<Rightarrow> world
    \<Rightarrow> (error + string) \<times> world" where
  "GET lib c endpoint params w =
     (case http_NewRequest lib (BaseURL c @ endpoint) of
        Some err \<Rightarrow> (Inl (External err), w)
      | None \<Rightarrow> do_request c (GET_request c endpoint params) w)"

text \<open>
  \<open>POST\<close>: a non-nil body is marshalled first (a nil body gives the empty payload), then
  the request is built with the \<open>Content-Type\<close> and \<open>Authorization\<close> headers.
\<close>

definition POST_request :: "Client \<Rightarrow> string \<Rightarrow> body option \<Rightarrow> request" where
  "POST_request c endpoint b =
     \<lparr>req_method = ''POST'', req_url = BaseURL c @ endpoint, req_query = [],
      req_headers = (''Content-Type'', ''application/json'') # auth_header c,
      req_body = b\<rparr>"

definition POST :: "'r golib \<Rightarrow> Client \<Rightarrow> string \<Rightarrow> body option \<Rightarrow> world
    \<Rightarrow> (error + string) \<times> world" where
  "POST lib c endpoint b w =
     (case (case b of None \<Rightarrow> None | Some v \<Rightarrow> json_Marshal v) of
        Some err \<Rightarrow> (Inl (External err), w)
      | None \<Rightarrow>
          (case http_NewRequest lib (BaseURL c @ endpoint) of
             Some err \<Rightarrow> (Inl (External err), w)
           | None \<Rightarrow> do_request c (POST_request c endpoint b) w))"

section \<open>Endpoint services\<close>

text \<open>
  Two pieces of code that every endpoint method repeats. \<open>set_opt\<close> is
  \<open>if p != nil { params[key] = f(*p) }\<close>. \<open>parse_result\<close> is the tail of a method: wrap
  the error of \<open>GET\<close>/\<open>POST\<close> with the sentinel, otherwise \<open>json.Unmarshal\<close> the bytes and
  wrap its error with \<open>ErrorFailedToParseResponse\<close>; \<open>fmt\<close> is the method's format string.
\<close>

definition set_opt :: "('k \<times> 'v) list \<Rightarrow> 'k \<Rightarrow> ('a \<Rightarrow> 'v) \<Rightarrow> 'a option \<Rightarrow> ('k \<times> 'v) list" where
  "set_opt params key f p =
     (case p of None \<Rightarrow> params | Some x \<Rightarrow> AList.update key (f x) params)"

definition parse_result :: "'r golib \<Rightarrow> string \<Rightarrow> error \<Rightarrow> (error + string) \<times> world
    \<Rightarrow> (error + 'r) \<times> world" where
  "parse_result lib fmt sentinel r =
     (case r of
        (Inl err, w') \<Rightarrow> (Inl (Errorf2 fmt sentinel err), w')
      | (Inr result, w') \<Rightarrow>
          (case json_Unmarshal lib result of
             Inl err \<Rightarrow> (Inl (Errorf2 fmt ErrorFailedToParseResponse (External err)), w')
           | Inr v \<Rightarrow> (Inr v, w')))"

subsection \<open>UserService\<close>

definition UserService_Users :: "'r golib \<Rightarrow> Client \<Rightarrow> go_int option \<Rightarrow> string option \<Rightarrow> world
    \<Rightarrow> (error + 'r) \<times> world" where
  "UserService_Users lib c limit before w =
     (case (case limit of None \<Rightarrow> None | Some l \<Rightarrow> checkInRange_int l 0 1000) of
        Some err \<Rightarrow> (Inl (Errorf1 ''User: Users(limit): %w'' err), w)
      | None \<Rightarrow>
          (let params = set_opt [] ''limit'' Sprintf_d limit;
               params = set_opt params ''before'' Lit before
           in parse_result lib ''User: Users: %w: %w'' ErrorGETFailed
                (GET lib c ''/users'' params w)))"

subsection \<open>ManaService\<close>

definition ManaService_Managrams :: "'r golib \<Rightarrow> Client \<Rightarrow> string option \<Rightarrow> string option
    \<Rightarrow> go_int option \<Rightarrow> Time option \<Rightarrow> Time option \<Rightarrow> world \<Rightarrow> (error + 'r) \<times> world" where
  "ManaService_Managrams lib c toID fromID limit before after w =
     (let params = set_opt [] ''toId'' Lit toID;
          params = set_opt params ''fromId'' Lit fromID
      in case (case limit of None \<Rightarrow> None | Some l \<Rightarrow> checkInRange_int l 0 1000) of
           Some err \<Rightarrow> (Inl (Errorf1 ''Misc: Managrams(limit): %w'' err), w)
         | None \<Rightarrow>
             (let params = set_opt params ''limit'' Sprintf_d limit;
                  params = set_opt params ''before'' (\<lambda>t. Sprintf_d (UnixMilli t)) before;
                  params = set_opt params ''after'' (\<lambda>t. Sprintf_d (UnixMilli t)) after
              in parse_result lib ''Mana: Managrams: %w: %w'' ErrorGETFailed
                   (GET lib c ''/managrams'' params w)))"

definition Managram_body :: "string slice \<Rightarrow> float64 \<Rightarrow> string option \<Rightarrow> body" where
  "Managram_body toIDs amount message =
     AnyMap (set_opt [(''toIds'', JStrings toIDs), (''amount'', JFloat amount)]
               ''message'' JString message)"

definition ManaService_Managram :: "'r golib \<Rightarrow> Client \<Rightarrow> string slice \<Rightarrow> float64
    \<Rightarrow> string option \<Rightarrow> world \<Rightarrow> error option \<times> world" where
  "ManaService_Managram lib c toIDs amount message w =
     (case POST lib c ''/managram'' (Some (Managram_body toIDs amount message)) w of
        (Inl err, w') \<Rightarrow> (Some (Errorf2 ''Mana: Managram: %w: %w'' ErrorPOSTFailed err), w')
      | (Inr _, w') \<Rightarrow> (None, w'))"

subsection \<open>CommentService\<close>

definition CommentService_Comments :: "'r golib \<Rightarrow> Client \<Rightarrow> string option \<Rightarrow> string option
    \<Rightarrow> go_int option \<Rightarrow> go_int option \<Rightarrow> string option \<Rightarrow> world \<Rightarrow> (error + 'r) \<times> world" where
  "CommentService_Comments lib c contractID contractSlug limit offset userID w =
     (let params = set_opt [] ''contractId'' Lit contractID;
          params = set_opt params ''contractSlug'' Lit contractSlug
      in case (case limit of None \<Rightarrow> None | Some l \<Rightarrow> checkInRange_int l 0 1000) of
           Some err \<Rightarrow> (Inl (Errorf1 ''Comment: Comments(limit): %w'' err), w)
         | None \<Rightarrow>
             (let params = set_opt params ''limit'' Sprintf_d limit
              in if (case offset of None \<Rightarrow> False | Some off \<Rightarrow> word_sless off 0)
                 then (Inl (Errorf0
                   ''Comment: Comments(offset): invalid value: %v, must be greater than 0''), w)
                 else
                   (let params = set_opt params ''offset'' Sprintf_d offset;
                        params = set_opt params ''userId'' Lit userID
                    in parse_result lib ''Comment: Comments: %w: %w'' ErrorGETFailed
                         (GET lib c ''/comments'' params w))))"

subsection \<open>BetService\<close>

definition BetService_Bets :: "'r golib \<Rightarrow> Client \<Rightarrow> string option \<Rightarrow> string option
    \<Rightarrow> string option \<Rightarrow> string option \<Rightarrow> go_int option \<Rightarrow> string option \<Rightarrow> string option
    \<Rightarrow> Time option \<Rightarrow> Time option \<Rightarrow> string option \<Rightarrow> string option \<Rightarrow> world
    \<Rightarrow> (error + 'r) \<times> world" where
  "BetService_Bets lib c userID username contractID contractSlug limit before after
       beforeTime afterTime kinds order' w =
     (let params = set_opt [] ''userId'' Lit userID;
          params = set_opt params ''username'' Lit username;
          params = set_opt params ''contractId'' Lit contractID;
          params = set_opt params ''contractSlug'' Lit contractSlug
      in case (case limit of None \<Rightarrow> None | Some l \<Rightarrow> checkInRange_int l 0 1000) of
           Some err \<Rightarrow> (Inl (Errorf1 ''Bet: Bets(limit): %w'' err), w)
         | None \<Rightarrow>
             (let params = set_opt params ''limit'' Sprintf_d limit;
                  params = set_opt params ''before'' Lit before;
                  params = set_opt params ''after'' Lit after;
                  params = set_opt params ''beforeTime'' (\<lambda>t. Sprintf_d (UnixMilli t)) beforeTime;
                  params = set_opt params ''afterTime'' (\<lambda>t. Sprintf_d (UnixMilli t)) afterTime
              in case (case kinds of None \<Rightarrow> None | Some k \<Rightarrow> checkOneOf k [''open-limit'']) of
                   Some err \<Rightarrow> (Inl (Errorf1 ''Bet: Bets(kinds): %w'' err), w)
                 | None \<Rightarrow>
                     (let params = set_opt params ''kinds'' Lit kinds
                      in case (case order' of None \<Rightarrow> None
                                | Some v \<Rightarrow> checkOneOf v [''asc'', ''desc'']) of
                           Some err \<Rightarrow> (Inl (Errorf1 ''Bet: Bets(order): %w'' err), w)
                         | None \<Rightarrow>
                             (let params = set_opt params ''order'' Lit order'
                              in parse_result lib ''Bet: Bets: %w: %w'' ErrorGETFailed
                                   (GET lib c ''/bets'' params w)))))"

definition BetService_Create :: "'r golib \<Rightarrow> Client \<Rightarrow> float64 \<Rightarrow> string \<Rightarrow> string option
    \<Rightarrow> float64 option \<Rightarrow> Time option \<Rightarrow> bool option \<Rightarrow> world \<Rightarrow> (error + 'r) \<times> world" where
  "BetService_Create lib c amount contractID outcome limitProb expiresAt dryRun w =
     (let body = [(''amount'', Sprintf_f amount), (''contractId'', Lit contractID)]
      in case (case outcome of None \<Rightarrow> None | Some v \<Rightarrow> checkOneOf v [''YES'', ''NO'']) of
           Some err \<Rightarrow> (Inl (Errorf1 ''Bet: Create(outcome): %w'' err), w)
         | None \<Rightarrow>
             (let body = set_opt body ''outcome'' Lit outcome
              in case (case limitProb of None \<Rightarrow> None
                        | Some p \<Rightarrow> checkInRange_float p (Finite 0) (Finite 1)) of
                   Some err \<Rightarrow> (Inl (Errorf1 ''Bet: Create(limitProb): %w'' err), w)
                 | None \<Rightarrow>
                     (let body = set_opt body ''limitProb'' Sprintf_f limitProb
                      in if expiresAt \<noteq> None \<and> limitProb = None
                         then (Inl (Errorf0
                           ''Bet: Create(expiresAt): only limit orders can have an expiresAt''), w)
                         else if (case expiresAt of None \<Rightarrow> False | Some t \<Rightarrow> After (clock w) t)
                         then (Inl (Errorf0
                           ''Bet: Create(expiresAt): limit order cannot expire in the past''), w)
                         else
                           (let body = set_opt body ''expiresAt''
                                         (\<lambda>t. Sprintf_d (UnixMilli t)) expiresAt;
                                body = set_opt body ''dryRun''
                                         (\<lambda>d. if d then Lit ''true'' else Lit ''false'') dryRun
                            in parse_result lib ''Bet: Create: %w: %w'' ErrorPOSTFailed
                                 (POST lib c ''/bet'' (Some (StringMap body)) w)))))"

subsection \<open>MarketService\<close>

definition allowedMarketMarketsSort :: "string list" where
  "allowedMarketMarketsSort =
     [''created-time'', ''updated-time'', ''last-bet-time'', ''last-comment-time'']"

definition allowedMarketSearchSort :: "string list" where
  "allowedMarketSearchSort =
     [''newest'', ''score'', ''daily-score'', ''freshness-score'', ''24-hour-vol'',
      ''most-popular'', ''liquidity'', ''subsidy'', ''last-updated'', ''close-date'',
      ''resolve-date'', ''random'', ''bounty-amount'', ''prob-descending'', ''prob-ascending'']"

definition allowedMarketSearchFilter :: "string list" where
  "allowedMarketSearchFilter =
     [''all'', ''open'', ''closed'', ''resolved'', ''closing-this-month'', ''closing-next-month'']"

definition allowedMarketSearchContractType :: "string list" where
  "allowedMarketSearchContractType =
     [''ALL'', ''BINARY'', ''MULTIPLE_CHOICE'', ''FREE-RESPONSE'', ''PSEUDO-NUMERIC'',
      ''BOUNTIED_QUESTION'', ''STONK'', ''POLL'', ''NUMBER'']"

definition MarketService_Markets :: "'r golib \<Rightarrow> Client \<Rightarrow> go_int option \<Rightarrow> string option
    \<Rightarrow> string option \<Rightarrow> string option \<Rightarrow> string option \<Rightarrow> string option \<Rightarrow> world
    \<Rightarrow> (error + 'r) \<times> world" where
  "MarketService_Markets lib c limit sort' order' before userID groupID w =
     (case (case limit of None \<Rightarrow> None | Some l \<Rightarrow> checkInRange_int l 0 1000) of
        Some err \<Rightarrow> (Inl (Errorf1 ''Market: Markets(limit): %w'' err), w)
      | None \<Rightarrow>
          (let params = set_opt [] ''limit'' Sprintf_d limit
           in case (case sort' of None \<Rightarrow> None
                     | Some v \<Rightarrow> checkOneOf v allowedMarketMarketsSort) of
                Some err \<Rightarrow> (Inl (Errorf1 ''Market: Markets(sort): %w'' err), w)
              | None \<Rightarrow>
                  (let params = set_opt params ''sort'' Lit sort'
                   in case (case order' of None \<Rightarrow> None
                             | Some v \<Rightarrow> checkOneOf v [''asc'', ''desc'']) of
                        Some err \<Rightarrow> (Inl (Errorf1 ''Market: Markets(order): %w'' err), w)
                      | None \<Rightarrow>
                          (let params = set_opt params ''order'' Lit order';
                               params = set_opt params ''before'' Lit before;
                               params = set_opt params ''userID'' Lit userID;
                               params = set_opt params ''groupID'' Lit groupID
                           in parse_result lib ''Market: Markets: %w: %w'' ErrorGETFailed
                                (GET lib c ''/markets'' params w)))))"

text \<open>\<open>Search\<close>: the source's first assignment is \<open>params[term] = term\<close>.\<close>

definition MarketService_Search :: "'r golib \<Rightarrow> Client \<Rightarrow> string \<Rightarrow> string option
    \<Rightarrow> string option \<Rightarrow> string option \<Rightarrow> string option \<Rightarrow> string option \<Rightarrow> go_int option
    \<Rightarrow> go_int option \<Rightarrow> world \<Rightarrow> (error + 'r) \<times> world" where
  "MarketService_Search lib c term' sort' filter' contractType topicSlug creatorID limit offset w =
     (let params = AList.update term' (Lit term') []
      in case (case sort' of None \<Rightarrow> None | Some v \<Rightarrow> checkOneOf v allowedMarketSearchSort) of
           Some err \<Rightarrow> (Inl (Errorf1 ''Market: Search(sort): %w'' err), w)
         | None \<Rightarrow>
       (let params = set_opt params ''sort'' Lit sort'
        in case (case filter' of None \<Rightarrow> None
                  | Some v \<Rightarrow> checkOneOf v allowedMarketSearchFilter) of
             Some err \<Rightarrow> (Inl (Errorf1 ''Market: Search(filter): %w'' err), w)
           | None \<Rightarrow>
         (let params = set_opt params ''filter'' Lit filter'
          in case (case contractType of None \<Rightarrow> None
                    | Some v \<Rightarrow> checkOneOf v allowedMarketSearchContractType) of
               Some err \<Rightarrow> (Inl (Errorf1 ''Market: Search(contractType): %w'' err), w)
             | None \<Rightarrow>
           (let params = set_opt params ''contractType'' Lit contractType;
                params = set_opt params ''topicSlug'' Lit topicSlug;
                params = set_opt params ''creatorId'' Lit creatorID
            in case (case limit of None \<Rightarrow> None | Some l \<Rightarrow> checkInRange_int l 0 1000) of
                 Some err \<Rightarrow> (Inl (Errorf1 ''Market: Search(limit): %w'' err), w)
               | None \<Rightarrow>
             (let params = set_opt params ''limit'' Sprintf_d limit
              in if (case offset of None \<Rightarrow> False | Some off \<Rightarrow> word_sless off 0)
                 then (Inl (Errorf0
                   ''Market: Search(offset): invalid value: %v, must be greater than 0''), w)
                 else
                   (let params = set_opt params ''offset'' Sprintf_d offset
                    in parse_result lib ''Market: Search: %w: %w'' ErrorGETFailed
                         (GET lib c ''/search-markets'' params w)))))))"

definition createMarket :: "'r golib \<Rightarrow> Client \<Rightarrow> (string \<times> jvalue) list \<Rightarrow> world
    \<Rightarrow> (error + 'r) \<times> world" where
  "createMarket lib c params w =
     (case POST lib c ''/market'' (Some (AnyMap params)) w of
        (Inl err, w') \<Rightarrow> (Inl (Errorf1 ''Market: createMarket: %w'' err), w')
      | (Inr result, w') \<Rightarrow>
          (case json_Unmarshal lib result of
             Inl err \<Rightarrow> (Inl (Errorf1 ''Market: createMarket: %w'' (External err)), w')
           | Inr market \<Rightarrow> (Inr market, w')))"

definition MarketService_CreatePseudoNumeric :: "'r golib \<Rightarrow> Client \<Rightarrow> string \<Rightarrow> go_int
    \<Rightarrow> go_int \<Rightarrow> go_int \<Rightarrow> bool \<Rightarrow> string option \<Rightarrow> Time option \<Rightarrow> string option
    \<Rightarrow> go_int option \<Rightarrow> world \<Rightarrow> (error + 'r) \<times> world" where
  "MarketService_CreatePseudoNumeric lib c question mn mx initialValue isLogScale description
       closeTime visibility extraLiquidity w =
     (case checkInRange_int initialValue (mn + 1) (mx - 1) of
        Some err \<Rightarrow> (Inl (Errorf1 ''Market: CreatePseudoNumeric: %w'' err), w)
      | None \<Rightarrow>
          (let params = [(''outcomeType'', JString ''PSEUDO_NUMERIC''),
                         (''question'', JString question),
                         (''min'', JInt mn),
                         (''max'', JInt mx),
                         (''initialValue'', JInt initialValue),
                         (''isLogScale'', JBool isLogScale)];
               params = set_opt params ''description'' JString description
           in if (case closeTime of None \<Rightarrow> False | Some t \<Rightarrow> After (clock w) t)
              then (Inl (Errorf0
                ''Market: CreatePseudoNumeric: closeTime cannot be in the past''), w)
              else
                (let params = set_opt params ''closeTime'' (\<lambda>t. JInt64 (UnixMilli t)) closeTime
                 in case (case visibility of None \<Rightarrow> None
                           | Some v \<Rightarrow> checkOneOf v [''public'', ''unlisted'']) of
                      Some err \<Rightarrow> (Inl (Errorf1 ''Market: CreatePseudoNumeric: %w'' err), w)
                    | None \<Rightarrow>
                        (let params = set_opt params ''visibility'' JString visibility;
                             params = set_opt params ''extraLiquidity'' JInt extraLiquidity
                         in createMarket lib c params w))))"

definition MarketService_AddLiquidity :: "'r golib \<Rightarrow> Client \<Rightarrow> string \<Rightarrow> float64 \<Rightarrow> world
    \<Rightarrow> (error + 'r) \<times> world" where
  "MarketService_AddLiquidity lib c id' amount w =
     (if float_lt amount (Finite 0)
      then (Inl (Errorf0 ''Market: AddLiquidity(amount): invalid value: %f must be >0''), w)
      else
        (let body = [(''amount'', Sprintf_f amount)]
         in parse_result lib ''Market: AddLiquidity: %w: %w'' ErrorPOSTFailed
              (POST lib c (''/market/'' @ url_PathEscape lib id' @ ''/add-liquidity'')
                 (Some (StringMap body)) w)))"

definition MarketService_AddBounty :: "'r golib \<Rightarrow> Client \<Rightarrow> string \<Rightarrow> float64 \<Rightarrow> world
    \<Rightarrow> (error + 'r) \<times> world" where
  "MarketService_AddBounty lib c id' amount w =
     (if float_lt amount (Finite 0)
      then (Inl (Errorf0 ''Market: AddBounty(amount): invalid value: %f must be >0''), w)
      else
        (let body = [(''amount'', Sprintf_f amount)]
         in parse_result lib ''Market: AddBounty: %w: %w'' ErrorPOSTFailed
              (POST lib c (''/market/'' @ url_PathEscape lib id' @ ''/add-bounty'')
                 (Some (StringMap body)) w)))"

definition MarketService_AwardBounty :: "'r golib \<Rightarrow> Client \<Rightarrow> string \<Rightarrow> float64 \<Rightarrow> string
    \<Rightarrow> world \<Rightarrow> (error + 'r) \<times> world" where
  "MarketService_AwardBounty lib c id' amount commentID w =
     (if float_lt amount (Finite 0)
      then (Inl (Errorf0 ''Market: AwardBounty(amount): invalid value: %f must be >0''), w)
      else
        (let body = [(''amount'', Sprintf_f amount), (''commentId'', Lit commentID)]
         in parse_result lib ''Market: AwardBounty: %w: %w'' ErrorPOSTFailed
              (POST lib c (''/market/'' @ url_PathEscape lib id' @ ''/award-bounty'')
                 (Some (StringMap body)) w)))"

text \<open>
  \<open>Sell\<close> is the sibling of the three methods above whose amount check is written
  \<open>*shares <= 0\<close>.
\<close>

definition MarketService_Sell :: "'r golib \<Rightarrow> Client \<Rightarrow> string \<Rightarrow> string option
    \<Rightarrow> float64 option \<Rightarrow> string option \<Rightarrow> world \<Rightarrow> (error + 'r) \<times> world" where
  "MarketService_Sell lib c id' outcome shares answerID w =
     (case (case outcome of None \<Rightarrow> None | Some v \<Rightarrow> checkOneOf v [''YES'', ''NO'']) of
        Some err \<Rightarrow> (Inl (Errorf1 ''Market: Sell(outcome): %w'' err), w)
      | None \<Rightarrow>
          (let body = set_opt [] ''outcome'' Lit outcome
           in if (case shares of None \<Rightarrow> False | Some s \<Rightarrow> float_le s (Finite 0))
              then (Inl (Errorf0
                ''Market: Sell(shares): invalid value: %f, value must be >0''), w)
              else
                (let body = set_opt body ''shares'' Sprintf_f shares;
                     body = set_opt body ''answerId'' Lit answerID
                 in parse_result lib ''Market: Sell: %w: %w'' ErrorPOSTFailed
                      (POST lib c (''/market/'' @ url_PathEscape lib id' @ ''/sell'')
                         (Some (StringMap body)) w))))"

definition resolveMarket :: "'r golib \<Rightarrow> Client \<Rightarrow> string \<Rightarrow> (string \<times> jvalue) list \<Rightarrow> world
    \<Rightarrow> (error + 'r) \<times> world" where
  "resolveMarket lib c id' params w =
     (case POST lib c (''/market/'' @ url_PathEscape lib id' @ ''/resolve'')
             (Some (AnyMap params)) w of
        (Inl err, w') \<Rightarrow> (Inl (Errorf1 ''Market: resolveMarket: %w'' err), w')
      | (Inr result, w') \<Rightarrow>
          (case json_Unmarshal lib result of
             Inl err \<Rightarrow> (Inl (Errorf1 ''Market: resolveMarket: %w'' (External err)), w')
           | Inr market \<Rightarrow> (Inr market, w')))"

definition MarketService_ResolveBinary :: "'r golib \<Rightarrow> Client \<Rightarrow> string \<Rightarrow> string
    \<Rightarrow> go_int option \<Rightarrow> world \<Rightarrow> (error + 'r) \<times> world" where
  "MarketService_ResolveBinary lib c id' outcome probabilityInt w =
     (case checkOneOf outcome [''YES'', ''NO'', ''MKT'', ''CANCEL''] of
        Some err \<Rightarrow> (Inl (Errorf1 ''Market: ResolveBinary: %w'' err), w)
      | None \<Rightarrow>
          (case (if outcome = ''MKT'' then
                   (case probabilityInt of None \<Rightarrow> None
                    | Some p \<Rightarrow> checkInRange_int p 0 100)
                 else None) of
             Some err \<Rightarrow> (Inl (Errorf1 ''Market: ResolveBinary: %w'' err), w)
           | None \<Rightarrow>
               (let params = [(''outcome'', JString outcome)];
                    params = set_opt params ''probabilityInt'' JInt probabilityInt
                in resolveMarket lib c id' params w)))"

text \<open>
  \<open>ResolveFreeResponse\<close>: the error of \<open>checkOneOf\<close> is looked at only inside its own
  \<open>if err != nil\<close>, where the source returns when \<open>outcome == "MKT" && resolutions == nil\<close>.
  The loop adds the \<open>Pct\<close> fields into \<open>totalPct\<close>, an \<open>int\<close>.
\<close>

definition totalPct :: "Resolution list \<Rightarrow> go_int" where
  "totalPct resolutions = foldl (\<lambda>total resolution. total + Pct resolution) 0 resolutions"

definition MarketService_ResolveFreeResponse :: "'r golib \<Rightarrow> Client \<Rightarrow> string \<Rightarrow> string
    \<Rightarrow> Resolution slice \<Rightarrow> world \<Rightarrow> (error + 'r) \<times> world" where
  "MarketService_ResolveFreeResponse lib c id' outcome resolutions w =
     (if checkOneOf outcome [''MKT'', ''CANCEL''] \<noteq> None \<and> outcome = ''MKT'' \<and> resolutions = None
      then (Inl (Errorf0
        ''Market: ResolveFreeResponse: outcome cannot be a specific answer without resolutions''), w)
      else
        (let params = [(''outcome'', JString outcome)]
         in if outcome = ''MKT'' \<and> 0 < len resolutions
            then
              (if totalPct (elems resolutions) \<noteq> 100
               then (Inl (Errorf0
                 ''Market: ResolveFreeResponse: total percentages of resolutions must add up to 100''), w)
               else resolveMarket lib c id' (AList.update ''resolutions'' (JResolutions resolutions) params) w)
            else resolveMarket lib c id' params w))"

section \<open>What the claims speak about\<close>

text \<open>
  The outcome of a call is a validation error when its error value is built from parameter
  checks alone. \<open>limit_ok\<close>, \<open>offset_ok\<close> and \<open>enum_ok\<close> are the specification's rules for
  an optional pagination limit, an optional offset and an optional enumerated string.
\<close>

definition validation_error :: "(error + 'r) \<times> world \<Rightarrow> bool" where
  "validation_error r = (case fst r of Inl e \<Rightarrow> is_validation e | Inr v \<Rightarrow> False)"

definition limit_ok :: "go_int option \<Rightarrow> bool" where
  "limit_ok limit = (case limit of None \<Rightarrow> True | Some l \<Rightarrow> word_sle 0 l \<and> word_sle l 1000)"

definition offset_ok :: "go_int option \<Rightarrow> bool" where
  "offset_ok offset = (case offset of None \<Rightarrow> True | Some off \<Rightarrow> word_sle 0 off)"

definition enum_ok :: "string option \<Rightarrow> string list \<Rightarrow> bool" where
  "enum_ok p allowed = (case p of None \<Rightarrow> True | Some v \<Rightarrow> v \<in> set allowed)"

text \<open>
  A concrete setting for closed instances: every URL parses, the server answers every
  request with status 200 and the body \<open>{}\<close>, every body decodes, and the clock reads 1000.
\<close>

definition ok_lib :: "unit golib" where
  "ok_lib = \<lparr>url_PathEscape = (\<lambda>s. s), http_NewRequest = (\<lambda>u. None),
            json_Unmarshal = (\<lambda>b. Inr ())\<rparr>"

definition ok_client :: Client where
  "ok_client = \<lparr>BaseURL = ''https://api.manifold.markets/v0'', APIKey = ''key'',
     HTTPClient = (\<lambda>req. Inr \<lparr>StatusCode = 200, ReadAll = Inr ''{}''\<rparr>)\<rparr>"

text \<open>A server that answers every request with status 404 and a JSON error body.\<close>

definition not_found_client :: Client where
  "not_found_client = \<lparr>BaseURL = ''https://api.manifold.markets/v0'', APIKey = [],
     HTTPClient = (\<lambda>req. Inr \<lparr>StatusCode = 404, ReadAll = Inr ''{error:not found}''\<rparr>)\<rparr>"

text \<open>
  \<open>with_status code c\<close> is the client \<open>c\<close> facing a server that answers as before but
  with the status codes that \<open>code\<close> chooses.
\<close>

definition with_status :: "(request \<Rightarrow> nat) \<Rightarrow> Client \<Rightarrow> Client" where
  "with_status code c =
     c\<lparr>HTTPClient := (\<lambda>req. case HTTPClient c req of
                                Inl err \<Rightarrow> Inl err
                              | Inr resp \<Rightarrow> Inr (resp\<lparr>StatusCode := code req\<rparr>))\<rparr>"

definition w0 :: world where
  "w0 = \<lparr>clock = 1000, sent = []\<rparr>"

section \<open>Auxiliary facts\<close>

lemma validation_error_Inl [simp]: "validation_error (Inl e, w) = is_validation e"
  by (simp add: validation_error_def)

lemma validation_error_Inr [simp]: "validation_error (Inr v, w) = False"
  by (simp add: validation_error_def)

lemma checkOneOf_eq: "checkOneOf v allowed = (if v \<in> set allowed then None else Some NotAllowed)"
  by (induction allowed) auto

lemma checkInRange_int_eq:
  "checkInRange_int v lo hi = (if word_sle lo v \<and> word_sle v hi then None else Some OutOfRange)"
  by (auto simp: checkInRange_def word_sle_eq word_sless_alt)

lemma do_request_external: "do_request c req w = (Inl e, w') \<Longrightarrow> \<not> is_validation e"
  by (auto simp: do_request_def Let_def split: sum.splits)

lemma GET_external: "GET lib c ep params w = (Inl e, w') \<Longrightarrow> \<not> is_validation e"
  by (auto simp: GET_def split: option.splits dest: do_request_external)

lemma POST_external: "POST lib c ep b w = (Inl e, w') \<Longrightarrow> \<not> is_validation e"
  by (auto simp: POST_def split: option.splits dest: do_request_external)

lemma parse_result_GET [simp]: "\<not> validation_error (parse_result lib fmt ErrorGETFailed r)"
  by (auto simp: validation_error_def parse_result_def split: prod.splits sum.splits)

lemma parse_result_POST [simp]: "\<not> validation_error (parse_result lib fmt ErrorPOSTFailed r)"
  by (auto simp: validation_error_def parse_result_def split: prod.splits sum.splits)

lemma createMarket_passes [simp]: "\<not> validation_error (createMarket lib c params w)"
  by (auto simp: validation_error_def createMarket_def split: prod.splits sum.splits
      dest: POST_external)

lemma resolveMarket_passes [simp]: "\<not> validation_error (resolveMarket lib c i params w)"
  by (auto simp: validation_error_def resolveMarket_def split: prod.splits sum.splits
      dest: POST_external)

subsection \<open>Which calls the list endpoints reject\<close>

text \<open>The three shapes of an optional parameter's check, in terms of the rules.\<close>

lemma enum_check:
  "(case (case p of None \<Rightarrow> None | Some v \<Rightarrow> checkOneOf v allowed) of
      None \<Rightarrow> g | Some err \<Rightarrow> f err)
   = (if enum_ok p allowed then g else f NotAllowed)"
  by (simp add: enum_ok_def checkOneOf_eq split: option.splits)

lemma limit_check:
  "(case (case limit of None \<Rightarrow> None | Some l \<Rightarrow> checkInRange_int l 0 1000) of
      None \<Rightarrow> g | Some err \<Rightarrow> f err)
   = (if limit_ok limit then g else f OutOfRange)"
  by (simp add: limit_ok_def checkInRange_int_eq split: option.splits)

lemma offset_check:
  "(case offset of None \<Rightarrow> False | Some off \<Rightarrow> word_sless off 0) = (\<not> offset_ok offset)"
  by (auto simp: offset_ok_def word_sle_eq word_sless_alt split: option.splits)

lemmas checks = enum_check limit_check offset_check Let_def

lemma Users_validation:
  "validation_error (UserService_Users lib c limit before w) = (\<not> limit_ok limit)"
  by (simp add: UserService_Users_def checks)

lemma Users_limit_error:
  "\<not> limit_ok limit \<Longrightarrow>
   UserService_Users lib c limit before w
     = (Inl (Errorf1 ''User: Users(limit): %w'' OutOfRange), w)"
  by (simp add: UserService_Users_def checks)

lemma Managrams_validation:
  "validation_error (ManaService_Managrams lib c toID fromID limit before after w)
     = (\<not> limit_ok limit)"
  by (simp add: ManaService_Managrams_def checks)

lemma Managrams_limit_error:
  "\<not> limit_ok limit \<Longrightarrow>
   ManaService_Managrams lib c toID fromID limit before after w
     = (Inl (Errorf1 ''Misc: Managrams(limit): %w'' OutOfRange), w)"
  by (simp add: ManaService_Managrams_def checks)

lemma Comments_validation:
  "validation_error (CommentService_Comments lib c cid slug limit offset uid w)
     = (\<not> (limit_ok limit \<and> offset_ok offset))"
  by (simp add: CommentService_Comments_def checks)

lemma Comments_limit_error:
  "\<not> limit_ok limit \<Longrightarrow>
   CommentService_Comments lib c cid slug limit offset uid w
     = (Inl (Errorf1 ''Comment: Comments(limit): %w'' OutOfRange), w)"
  by (simp add: CommentService_Comments_def checks)

lemma Comments_offset_error:
  "limit_ok limit \<Longrightarrow> \<not> offset_ok offset \<Longrightarrow>
   CommentService_Comments lib c cid slug limit offset uid w
     = (Inl (Errorf0
          ''Comment: Comments(offset): invalid value: %v, must be greater than 0''), w)"
  by (simp add: CommentService_Comments_def checks)

lemma Markets_validation:
  "validation_error (MarketService_Markets lib c limit srt ord before uid gid w)
     = (\<not> (limit_ok limit \<and> enum_ok srt allowedMarketMarketsSort
            \<and> enum_ok ord [''asc'', ''desc'']))"
  by (simp add: MarketService_Markets_def checks)

lemma Markets_limit_error:
  "\<not> limit_ok limit \<Longrightarrow>
   MarketService_Markets lib c limit srt ord before uid gid w
     = (Inl (Errorf1 ''Market: Markets(limit): %w'' OutOfRange), w)"
  by (simp add: MarketService_Markets_def checks)

lemma Bets_validation:
  "validation_error
     (BetService_Bets lib c uid un cid slug limit before after btime atime kinds ord w)
     = (\<not> (limit_ok limit \<and> enum_ok kinds [''open-limit'']
            \<and> enum_ok ord [''asc'', ''desc'']))"
  by (simp add: BetService_Bets_def checks)

lemma Bets_limit_error:
  "\<not> limit_ok limit \<Longrightarrow>
   BetService_Bets lib c uid un cid slug limit before after btime atime kinds ord w
     = (Inl (Errorf1 ''Bet: Bets(limit): %w'' OutOfRange), w)"
  by (simp add: BetService_Bets_def checks)

lemma Search_validation:
  "validation_error
     (MarketService_Search lib c term srt flt ctype topic creator limit offset w)
     = (\<not> (enum_ok srt allowedMarketSearchSort \<and> enum_ok flt allowedMarketSearchFilter
            \<and> enum_ok ctype allowedMarketSearchContractType
            \<and> limit_ok limit \<and> offset_ok offset))"
  by (simp add: MarketService_Search_def checks)

lemma Search_unchanged:
  "validation_error
     (MarketService_Search lib c term srt flt ctype topic creator limit offset w) \<Longrightarrow>
   snd (MarketService_Search lib c term srt flt ctype topic creator limit offset w) = w"
  by (simp add: MarketService_Search_def checks split: if_splits)

lemma Search_limit_error:
  "enum_ok srt allowedMarketSearchSort \<Longrightarrow> enum_ok flt allowedMarketSearchFilter \<Longrightarrow>
   enum_ok ctype allowedMarketSearchContractType \<Longrightarrow> \<not> limit_ok limit \<Longrightarrow>
   MarketService_Search lib c term srt flt ctype topic creator limit offset w
     = (Inl (Errorf1 ''Market: Search(limit): %w'' OutOfRange), w)"
  by (simp add: MarketService_Search_def checks)

lemma Search_offset_error:
  "enum_ok srt allowedMarketSearchSort \<Longrightarrow> enum_ok flt allowedMarketSearchFilter \<Longrightarrow>
   enum_ok ctype allowedMarketSearchContractType \<Longrightarrow> limit_ok limit \<Longrightarrow>
   \<not> offset_ok offset \<Longrightarrow>
   MarketService_Search lib c term srt flt ctype topic creator limit offset w
     = (Inl (Errorf0
          ''Market: Search(offset): invalid value: %v, must be greater than 0''), w)"
  by (simp add: MarketService_Search_def checks)

section \<open>The claims\<close>

text \<open>
  Claim C6. On every list endpoint with pagination parameters (\<open>Users\<close>, \<open>Managrams\<close>,
  \<open>Comments\<close>, \<open>Markets\<close>, \<open>Bets\<close>, \<open>Search\<close>) a supplied limit passes validation exactly
  when \<open>0 \<le> limit \<le> 1000\<close>, and a supplied offset exactly when \<open>0 \<le> offset\<close>: the call
  ends in a validation error if and only if one of its checked parameters breaks its rule;
  a limit out of range gives the range error of that endpoint with nothing sent (on
  \<open>Search\<close>, which checks its enumerations first, a validation error with nothing sent,
  and the range error when the enumerations pass); an offset below 0 behind a valid limit
  gives the offset error with nothing sent.
  \<open>checkInRange(value, min, max)\<close> returns \<open>nil\<close> exactly when \<open>min \<le> value \<le> max\<close>.
\<close>

theorem pagination_limit_offset:
  "(checkInRange_int v lo hi = None) = (word_sle lo v \<and> word_sle v hi)
   \<and> validation_error (UserService_Users lib c limit before w) = (\<not> limit_ok limit)
   \<and> validation_error (ManaService_Managrams lib c toID fromID limit beforeT afterT w)
       = (\<not> limit_ok limit)
   \<and> validation_error
        (CommentService_Comments lib c contractID contractSlug limit offset userID w)
       = (\<not> (limit_ok limit \<and> offset_ok offset))
   \<and> validation_error (MarketService_Markets lib c limit srt ord before userID groupID w)
       = (\<not> (limit_ok limit \<and> enum_ok srt allowedMarketMarketsSort
              \<and> enum_ok ord [''asc'', ''desc'']))
   \<and> validation_error (BetService_Bets lib c userID username contractID contractSlug limit
          before after beforeT afterT kinds ord w)
       = (\<not> (limit_ok limit \<and> enum_ok kinds [''open-limit'']
              \<and> enum_ok ord [''asc'', ''desc'']))
   \<and> validation_error (MarketService_Search lib c term srt flt contractType topicSlug
          creatorID limit offset w)
       = (\<not> (enum_ok srt allowedMarketSearchSort \<and> enum_ok flt allowedMarketSearchFilter
              \<and> enum_ok contractType allowedMarketSearchContractType
              \<and> limit_ok limit \<and> offset_ok offset))
   \<and> (\<not> limit_ok limit \<longrightarrow>
        UserService_Users lib c limit before w
          = (Inl (Errorf1 ''User: Users(limit): %w'' OutOfRange), w)
      \<and> ManaService_Managrams lib c toID fromID limit beforeT afterT w
          = (Inl (Errorf1 ''Misc: Managrams(limit): %w'' OutOfRange), w)
      \<and> CommentService_Comments lib c contractID contractSlug limit offset userID w
          = (Inl (Errorf1 ''Comment: Comments(limit): %w'' OutOfRange), w)
      \<and> MarketService_Markets lib c limit srt ord before userID groupID w
          = (Inl (Errorf1 ''Market: Markets(limit): %w'' OutOfRange), w)
      \<and> BetService_Bets lib c userID username contractID contractSlug limit
          before after beforeT afterT kinds ord w
          = (Inl (Errorf1 ''Bet: Bets(limit): %w'' OutOfRange), w)
      \<and> snd (MarketService_Search lib c term srt flt contractType topicSlug
          creatorID limit offset w) = w)
   \<and> (\<not> limit_ok limit \<and> enum_ok srt allowedMarketSearchSort
        \<and> enum_ok flt allowedMarketSearchFilter
        \<and> enum_ok contractType allowedMarketSearchContractType \<longrightarrow>
        MarketService_Search lib c term srt flt contractType topicSlug creatorID limit offset w
          = (Inl (Errorf1 ''Market: Search(limit): %w'' OutOfRange), w))
   \<and> (limit_ok limit \<and> \<not> offset_ok offset \<longrightarrow>
        CommentService_Comments lib c contractID contractSlug limit offset userID w
          = (Inl (Errorf0
               ''Comment: Comments(offset): invalid value: %v, must be greater than 0''), w)
      \<and> snd (MarketService_Search lib c term srt flt contractType topicSlug
          creatorID limit offset w) = w)
   \<and> (limit_ok limit \<and> \<not> offset_ok offset \<and> enum_ok srt allowedMarketSearchSort
        \<and> enum_ok flt allowedMarketSearchFilter
        \<and> enum_ok contractType allowedMarketSearchContractType \<longrightarrow>
        MarketService_Search lib c term srt flt contractType topicSlug creatorID limit offset w
          = (Inl (Errorf0
               ''Market: Search(offset): invalid value: %v, must be greater than 0''), w))"
proof -
  have unchanged: "\<not> (limit_ok limit \<and> offset_ok offset) \<Longrightarrow>
      snd (MarketService_Search lib c term srt flt contractType topicSlug
          creatorID limit offset w) = w"
    by (rule Search_unchanged) (simp add: Search_validation)
  show ?thesis
    using unchanged
    by (simp add: checkInRange_int_eq Users_validation Managrams_validation
        Comments_validation Markets_validation Bets_validation Search_validation
        Users_limit_error Managrams_limit_error Comments_limit_error Markets_limit_error
        Bets_limit_error Comments_offset_error Search_limit_error Search_offset_error)
qed

text \<open>Instances of C6 at the limits 1001, 1000 and 0 and the offsets -1 and 0.\<close>

theorem pagination_limit_offset_witness:
  "\<not> limit_ok (Some 1001) \<and> limit_ok (Some 1000) \<and> limit_ok (Some 0) \<and> \<not> limit_ok (Some (-1))
   \<and> \<not> offset_ok (Some (-1)) \<and> offset_ok (Some 0)
   \<and> UserService_Users ok_lib ok_client (Some 1001) None w0
        = (Inl (Errorf1 ''User: Users(limit): %w'' OutOfRange), w0)
   \<and> \<not> validation_error (UserService_Users ok_lib ok_client (Some 1000) None w0)
   \<and> CommentService_Comments ok_lib ok_client None None (Some 0) (Some (-1)) None w0
        = (Inl (Errorf0
             ''Comment: Comments(offset): invalid value: %v, must be greater than 0''), w0)
   \<and> \<not> validation_error
         (CommentService_Comments ok_lib ok_client None None (Some 0) (Some 0) None w0)"
  using pagination_limit_offset [of _ _ _ ok_lib ok_client "Some 1001" None w0]
    pagination_limit_offset [of _ _ _ ok_lib ok_client "Some 1000" None w0]
    pagination_limit_offset [of _ _ _ ok_lib ok_client "Some 0" _ w0 _ _ _ _ None None "Some (-1)" None]
    pagination_limit_offset [of _ _ _ ok_lib ok_client "Some 0" _ w0 _ _ _ _ None None "Some 0" None]
  by (simp add: limit_ok_def offset_ok_def word_sle_eq)

text \<open>
  A call of \<open>BetService.Create\<close> that ends in a validation error leaves the world as it
  was: nothing has been handed to the HTTP client.
\<close>

lemma Create_validation:
  "validation_error (BetService_Create lib c amount cid outcome limitProb expiresAt dryRun w) \<Longrightarrow>
     snd (BetService_Create lib c amount cid outcome limitProb expiresAt dryRun w) = w"
  by (auto simp: BetService_Create_def Let_def checkOneOf_eq checkInRange_def split: option.splits if_splits)

text \<open>
  Claim C1, as stated, fails: with a limit probability set and \<open>expiresAt\<close> equal to the
  instant that \<open>time.Now()\<close> returns, \<open>expiresAt\<close> is not strictly in the future, yet
  \<open>time.Now().After(*expiresAt)\<close> is false, the call passes validation and the POST to
  \<open>/bet\<close> is sent.
\<close>

theorem bet_expiry_now_counterexample:
  "\<not> (clock w0 < 1000)
   \<and> fst (BetService_Create ok_lib ok_client (Finite 10) ''c1'' None (Some (Finite (1/2)))
             (Some 1000) None w0) = Inr ()
   \<and> map req_url (sent (snd (BetService_Create ok_lib ok_client (Finite 10) ''c1'' None
             (Some (Finite (1/2))) (Some 1000) None w0)))
       = [''https://api.manifold.markets/v0/bet'']"
  by (simp add: BetService_Create_def ok_lib_def ok_client_def w0_def Let_def checkInRange_def
      After_def set_opt_def parse_result_def POST_def POST_request_def do_request_def)

text \<open>
  Claim C1, amended. A call of \<open>BetService.Create\<close> with \<open>expiresAt\<close> set and \<open>limitProb\<close>
  nil returns a validation error with nothing sent, whatever the amount, contract,
  outcome and dry-run flag are. With both set, the call returns a validation error with
  nothing sent when \<open>expiresAt\<close> is strictly before the current time; when \<open>expiresAt\<close> is
  the current time or later and the outcome and the limit probability pass their own
  checks, the call passes validation.
\<close>

theorem bet_expiry_validation:
  "validation_error (BetService_Create lib c amount contractID outcome None (Some t) dryRun w)
   \<and> snd (BetService_Create lib c amount contractID outcome None (Some t) dryRun w) = w
   \<and> (t < clock w \<longrightarrow>
        validation_error
          (BetService_Create lib c amount contractID outcome (Some p) (Some t) dryRun w)
        \<and> snd (BetService_Create lib c amount contractID outcome (Some p) (Some t) dryRun w) = w)
   \<and> (clock w \<le> t \<and> enum_ok outcome [''YES'', ''NO'']
        \<and> checkInRange_float p (Finite 0) (Finite 1) = None \<longrightarrow>
        \<not> validation_error
          (BetService_Create lib c amount contractID outcome (Some p) (Some t) dryRun w))"
  by (auto simp: BetService_Create_def Let_def checkOneOf_eq checkInRange_def enum_ok_def
      After_def split: option.splits if_splits)

text \<open>Instances of C1 (amended) with the clock at 1000 and expiry times 5000 and 999.\<close>

theorem bet_expiry_validation_witness:
  "validation_error (BetService_Create ok_lib ok_client (Finite 10) ''c1'' (Some ''YES'') None
       (Some 5000) (Some True) w0)
   \<and> (999::int) < clock w0
   \<and> validation_error (BetService_Create ok_lib ok_client (Finite 10) ''c1'' (Some ''YES'')
       (Some (Finite (1/2))) (Some 999) (Some True) w0)
   \<and> snd (BetService_Create ok_lib ok_client (Finite 10) ''c1'' (Some ''YES'')
       (Some (Finite (1/2))) (Some 999) (Some True) w0) = w0
   \<and> clock w0 \<le> 5000
   \<and> \<not> validation_error (BetService_Create ok_lib ok_client (Finite 10) ''c1'' (Some ''YES'')
       (Some (Finite (1/2))) (Some 5000) (Some True) w0)"
  using bet_expiry_validation [of ok_lib ok_client "Finite 10" "''c1''" "Some ''YES''" 5000 "Some True" w0 "Finite (1/2)"]
    bet_expiry_validation [of ok_lib ok_client "Finite 10" "''c1''" "Some ''YES''" 999 "Some True" w0 "Finite (1/2)"]
  by (simp add: w0_def enum_ok_def checkInRange_def)

text \<open>
  Claim C2, as stated, fails: with outcome \<open>MKT\<close> and an empty resolutions slice the
  percentages sum to 0, not 100, yet the guard \<open>len(resolutions) > 0\<close> skips the check and
  the POST is sent, its body holding the outcome only.
\<close>

theorem resolve_free_response_empty_counterexample:
  "totalPct (elems (Some [])) \<noteq> 100
   \<and> fst (MarketService_ResolveFreeResponse ok_lib ok_client ''m1'' ''MKT'' (Some []) w0) = Inr ()
   \<and> map req_body (sent (snd
        (MarketService_ResolveFreeResponse ok_lib ok_client ''m1'' ''MKT'' (Some []) w0)))
       = [Some (AnyMap [(''outcome'', JString ''MKT'')])]"
  by (simp add: MarketService_ResolveFreeResponse_def resolveMarket_def totalPct_def
      ok_lib_def ok_client_def w0_def POST_def POST_request_def do_request_def)

text \<open>
  Claim C2, amended. For outcome \<open>MKT\<close> and a non-empty resolutions slice:
  \<open>ResolveFreeResponse\<close> returns its validation error, with nothing sent, when the \<open>Pct\<close>
  values (added as Go \<open>int\<close>s) do not sum to 100, and when they do it hands to
  \<open>resolveMarket\<close> the body with the outcome and the resolutions.
\<close>

theorem resolve_free_response_pct:
  "0 < len resolutions \<Longrightarrow>
   MarketService_ResolveFreeResponse lib c id' ''MKT'' resolutions w =
     (if totalPct (elems resolutions) = 100
      then resolveMarket lib c id'
             [(''outcome'', JString ''MKT''), (''resolutions'', JResolutions resolutions)] w
      else (Inl (Errorf0
        ''Market: ResolveFreeResponse: total percentages of resolutions must add up to 100''), w))"
  by (simp add: MarketService_ResolveFreeResponse_def)

text \<open>Instances of C2 (amended): percentages summing to 100, to 99 and to 101.\<close>

theorem resolve_free_response_pct_witness:
  "0 < len (Some [\<lparr>Answer = 0, Pct = 60\<rparr>, \<lparr>Answer = 1, Pct = 40\<rparr>])
   \<and> MarketService_ResolveFreeResponse ok_lib ok_client ''m1'' ''MKT''
        (Some [\<lparr>Answer = 0, Pct = 60\<rparr>, \<lparr>Answer = 1, Pct = 40\<rparr>]) w0
      = resolveMarket ok_lib ok_client ''m1''
          [(''outcome'', JString ''MKT''),
           (''resolutions'', JResolutions (Some [\<lparr>Answer = 0, Pct = 60\<rparr>, \<lparr>Answer = 1, Pct = 40\<rparr>]))] w0
   \<and> MarketService_ResolveFreeResponse ok_lib ok_client ''m1'' ''MKT''
        (Some [\<lparr>Answer = 0, Pct = 60\<rparr>, \<lparr>Answer = 1, Pct = 39\<rparr>]) w0
      = (Inl (Errorf0
        ''Market: ResolveFreeResponse: total percentages of resolutions must add up to 100''), w0)
   \<and> MarketService_ResolveFreeResponse ok_lib ok_client ''m1'' ''MKT''
        (Some [\<lparr>Answer = 0, Pct = 60\<rparr>, \<lparr>Answer = 1, Pct = 41\<rparr>]) w0
      = (Inl (Errorf0
        ''Market: ResolveFreeResponse: total percentages of resolutions must add up to 100''), w0)"
  using resolve_free_response_pct [of "Some [\<lparr>Answer = 0, Pct = 60\<rparr>, \<lparr>Answer = 1, Pct = 40\<rparr>]" ok_lib ok_client "''m1''" w0]
   resolve_free_response_pct [of "Some [\<lparr>Answer = 0, Pct = 60\<rparr>, \<lparr>Answer = 1, Pct = 39\<rparr>]" ok_lib ok_client "''m1''" w0]
   resolve_free_response_pct [of "Some [\<lparr>Answer = 0, Pct = 60\<rparr>, \<lparr>Answer = 1, Pct = 41\<rparr>]" ok_lib ok_client "''m1''" w0]
  by (simp add: totalPct_def)

text \<open>
  \<open>CommentService.Comments\<close> enters \<open>contractID\<close> under the fixed key \<open>contractId\<close>,
  as the other read operations do with their parameters.
\<close>

lemma Comments_contractId_key:
  "map_of (req_query (GET_request c ''/comments''
      (set_opt [] ''contractId'' Lit (Some contractID)))) ''contractId'' = Some (Lit contractID)"
  by (simp add: GET_request_def set_opt_def)

text \<open>
  With no optional parameter, \<open>Search\<close> hands to \<open>GET\<close> the one pair whose key is the
  term itself.
\<close>

lemma Search_query:
  "MarketService_Search lib c term None None None None None None None w
     = parse_result lib ''Market: Search: %w: %w'' ErrorGETFailed
         (GET lib c ''/search-markets'' [(term, Lit term)] w)"
  by (simp add: MarketService_Search_def set_opt_def)

text \<open>
  Claim C3 says that every read operation enters each parameter under its fixed wire name,
  and that \<open>MarketService.Search\<close> puts the search term under the key \<open>term\<close>. The code of
  \<open>Search\<close> assigns \<open>params[term] = term\<close>: for the term \<open>cats\<close> the query that is sent
  holds the pair \<open>cats = cats\<close> and has no key \<open>term\<close>.
\<close>

theorem search_term_key:
  "map req_query (sent (snd (MarketService_Search ok_lib ok_client ''cats''
       None None None None None None None w0))) = [[(''cats'', Lit ''cats'')]]
   \<and> map_of [(''cats'', Lit ''cats'')] ''term'' = None"
  by (simp add: MarketService_Search_def set_opt_def parse_result_def GET_def GET_request_def
      do_request_def ok_lib_def ok_client_def w0_def)

text \<open>
  In \<open>ResolveFreeResponse\<close> the condition under which the error of \<open>checkOneOf\<close> leads to
  a return can never hold, while the sibling \<open>ResolveBinary\<close> returns the error of its own
  \<open>checkOneOf\<close>.
\<close>

lemma ResolveFreeResponse_check_dead:
  "\<not> (checkOneOf outcome [''MKT'', ''CANCEL''] \<noteq> None \<and> outcome = ''MKT'' \<and> resolutions = None)"
  by simp

lemma ResolveBinary_rejects:
  "outcome \<notin> set [''YES'', ''NO'', ''MKT'', ''CANCEL''] \<Longrightarrow>
   MarketService_ResolveBinary lib c id' outcome p w
     = (Inl (Errorf1 ''Market: ResolveBinary: %w'' NotAllowed), w)"
  by (simp add: MarketService_ResolveBinary_def checkOneOf_eq)

text \<open>Without resolutions, \<open>ResolveFreeResponse\<close> forwards every outcome string.\<close>

lemma ResolveFreeResponse_any_outcome:
  "MarketService_ResolveFreeResponse lib c id' outcome None w
     = resolveMarket lib c id' [(''outcome'', JString outcome)] w"
  by (cases "outcome = ''MKT''") (simp_all add: MarketService_ResolveFreeResponse_def)

text \<open>
  Claim C4 says that on every endpoint a value outside the allowed set of an enumerated
  parameter gives an enumeration error with no request issued. \<open>ResolveFreeResponse\<close>
  calls \<open>checkOneOf(outcome, "MKT", "CANCEL")\<close> and drops its error: for the outcome \<open>FOO\<close>
  the check fails, yet the call succeeds and the POST with that outcome is sent.
\<close>

theorem resolve_free_response_outcome_unchecked:
  "checkOneOf ''FOO'' [''MKT'', ''CANCEL''] = Some NotAllowed
   \<and> fst (MarketService_ResolveFreeResponse ok_lib ok_client ''m1'' ''FOO'' None w0) = Inr ()
   \<and> sent (snd (MarketService_ResolveFreeResponse ok_lib ok_client ''m1'' ''FOO'' None w0))
       = [POST_request ok_client ''/market/m1/resolve''
            (Some (AnyMap [(''outcome'', JString ''FOO'')]))]"
  by (simp add: MarketService_ResolveFreeResponse_def resolveMarket_def
      ok_lib_def ok_client_def w0_def POST_def do_request_def)

text \<open>
  The amount check of \<open>AddLiquidity\<close>, \<open>AddBounty\<close> and \<open>AwardBounty\<close> rejects exactly the
  amounts below zero; the sibling \<open>Sell\<close> rejects zero shares.
\<close>

lemma amount_check:
  "validation_error (MarketService_AddLiquidity lib c id' amount w) = float_lt amount (Finite 0)"
  "validation_error (MarketService_AddBounty lib c id' amount w) = float_lt amount (Finite 0)"
  "validation_error (MarketService_AwardBounty lib c id' amount commentID w)
     = float_lt amount (Finite 0)"
  by (simp_all add: MarketService_AddLiquidity_def MarketService_AddBounty_def
      MarketService_AwardBounty_def)

lemma Sell_rejects_zero:
  "MarketService_Sell lib c id' None (Some (Finite 0)) answerID w
     = (Inl (Errorf0 ''Market: Sell(shares): invalid value: %f, value must be >0''), w)"
  by (simp add: MarketService_Sell_def set_opt_def)

text \<open>
  Claim C8 says that \<open>AddLiquidity\<close>, \<open>AddBounty\<close> and \<open>AwardBounty\<close> reject every amount
  \<open>\<le> 0\<close> before any POST. Their check is \<open>amount < 0\<close>: the amount 0 is \<open>\<le> 0\<close>, and each
  of the three calls succeeds and sends its POST with that amount.
\<close>

theorem amount_zero_accepted:
  "float_le (Finite 0) (Finite 0)
   \<and> fst (MarketService_AddLiquidity ok_lib ok_client ''m1'' (Finite 0) w0) = Inr ()
   \<and> sent (snd (MarketService_AddLiquidity ok_lib ok_client ''m1'' (Finite 0) w0))
       = [POST_request ok_client ''/market/m1/add-liquidity''
            (Some (StringMap [(''amount'', Sprintf_f (Finite 0))]))]
   \<and> fst (MarketService_AddBounty ok_lib ok_client ''m1'' (Finite 0) w0) = Inr ()
   \<and> sent (snd (MarketService_AddBounty ok_lib ok_client ''m1'' (Finite 0) w0))
       = [POST_request ok_client ''/market/m1/add-bounty''
            (Some (StringMap [(''amount'', Sprintf_f (Finite 0))]))]
   \<and> fst (MarketService_AwardBounty ok_lib ok_client ''m1'' (Finite 0) ''c9'' w0) = Inr ()
   \<and> sent (snd (MarketService_AwardBounty ok_lib ok_client ''m1'' (Finite 0) ''c9'' w0))
       = [POST_request ok_client ''/market/m1/award-bounty''
            (Some (StringMap [(''amount'', Sprintf_f (Finite 0)), (''commentId'', Lit ''c9'')]))]"
  by (simp add: MarketService_AddLiquidity_def MarketService_AddBounty_def
      MarketService_AwardBounty_def parse_result_def
      ok_lib_def ok_client_def w0_def POST_def do_request_def)

text \<open>
  Claim C10. \<open>ManaService.Managram\<close> checks none of its parameters: for every \<open>toIDs\<close>
  slice, amount and message it hands the body with \<open>toIds\<close>, \<open>amount\<close> (and \<open>message\<close>
  when given) to \<open>POST\<close>; it returns an error exactly when \<open>POST\<close> does, leaves the world
  as \<open>POST\<close> leaves it, and its error is never a validation error.
\<close>

theorem managram_no_validation:
  "(fst (ManaService_Managram lib c toIDs amount message w) \<noteq> None)
     = isl (fst (POST lib c ''/managram'' (Some (Managram_body toIDs amount message)) w))
   \<and> snd (ManaService_Managram lib c toIDs amount message w)
     = snd (POST lib c ''/managram'' (Some (Managram_body toIDs amount message)) w)
   \<and> (case fst (ManaService_Managram lib c toIDs amount message w) of
         None \<Rightarrow> True | Some e \<Rightarrow> \<not> is_validation e)
   \<and> (case Managram_body toIDs amount message of
         AnyMap m \<Rightarrow> map_of m ''toIds'' = Some (JStrings toIDs)
                   \<and> map_of m ''amount'' = Some (JFloat amount)
                   \<and> map_of m ''message'' = map_option JString message
       | StringMap m \<Rightarrow> False)"
  by (auto simp: ManaService_Managram_def Managram_body_def set_opt_def
      split: prod.splits sum.splits option.splits)

text \<open>Instances of C10: an empty slice with a negative amount, a nil slice with amount 0.\<close>

theorem managram_no_validation_witness:
  "fst (ManaService_Managram ok_lib ok_client (Some []) (Finite (-5)) None w0) = None
   \<and> sent (snd (ManaService_Managram ok_lib ok_client (Some []) (Finite (-5)) None w0))
      = [POST_request ok_client ''/managram''
           (Some (AnyMap [(''toIds'', JStrings (Some [])), (''amount'', JFloat (Finite (-5)))]))]
   \<and> fst (ManaService_Managram ok_lib ok_client None (Finite 0) None w0) = None"
  using managram_no_validation [of ok_lib ok_client "Some []" "Finite (-5)" None w0]
    managram_no_validation [of ok_lib ok_client None "Finite 0" None w0]
  by (simp add: Managram_body_def set_opt_def
      ok_lib_def ok_client_def w0_def POST_def do_request_def)

text \<open>
  What \<open>resolveMarket\<close> hands to the HTTP client, and the two cases of \<open>ResolveBinary\<close>
  with a probability supplied.
\<close>

lemma resolveMarket_sent:
  "json_Marshal (AnyMap params) = None \<Longrightarrow>
   http_NewRequest lib (BaseURL c @ ''/market/'' @ url_PathEscape lib id' @ ''/resolve'') = None \<Longrightarrow>
   sent (snd (resolveMarket lib c id' params w))
     = sent w @ [POST_request c (''/market/'' @ url_PathEscape lib id' @ ''/resolve'')
                   (Some (AnyMap params))]"
  by (simp add: resolveMarket_def POST_def do_request_def Let_def split: sum.splits)

lemma ResolveBinary_not_MKT:
  assumes "outcome \<in> {''YES'', ''NO'', ''CANCEL''}"
  shows "MarketService_ResolveBinary lib c id' outcome (Some p) w
       = resolveMarket lib c id'
           [(''outcome'', JString outcome), (''probabilityInt'', JInt p)] w"
proof -
  have ok: "checkOneOf outcome [''YES'', ''NO'', ''MKT'', ''CANCEL''] = None"
    using assms by (auto simp: checkOneOf_eq)
  have ne: "outcome \<noteq> ''MKT''"
    using assms by auto
  show ?thesis
    unfolding MarketService_ResolveBinary_def
    by (simp add: ok ne set_opt_def del: checkOneOf.simps)
qed

lemma ResolveBinary_MKT:
  "MarketService_ResolveBinary lib c id' ''MKT'' (Some p) w
       = (if word_sle 0 p \<and> word_sle p 100
          then resolveMarket lib c id'
                 [(''outcome'', JString ''MKT''), (''probabilityInt'', JInt p)] w
          else (Inl (Errorf1 ''Market: ResolveBinary: %w'' OutOfRange), w))"
  by (simp add: MarketService_ResolveBinary_def set_opt_def checkInRange_int_eq)

text \<open>
  Claim C9. \<open>ResolveBinary\<close> checks \<open>probabilityInt\<close> against \<open>[0, 100]\<close> only for the
  outcome \<open>MKT\<close>. For \<open>YES\<close>, \<open>NO\<close> and \<open>CANCEL\<close> every supplied value, negative or above
  100 included, passes validation and is in the parameters handed to \<open>resolveMarket\<close>,
  which sends them in the body of the POST when the URL parses (these parameters always
  marshal). For \<open>MKT\<close> a value outside \<open>[0, 100]\<close> gives the range error with nothing sent.
\<close>

theorem resolve_binary_probability:
  "outcome \<in> {''YES'', ''NO'', ''CANCEL''} \<Longrightarrow>
     MarketService_ResolveBinary lib c id' outcome (Some p) w
       = resolveMarket lib c id'
           [(''outcome'', JString outcome), (''probabilityInt'', JInt p)] w
     \<and> \<not> validation_error (MarketService_ResolveBinary lib c id' outcome (Some p) w)
     \<and> json_Marshal (AnyMap [(''outcome'', JString outcome), (''probabilityInt'', JInt p)]) = None
     \<and> (http_NewRequest lib (BaseURL c @ ''/market/'' @ url_PathEscape lib id' @ ''/resolve'') = None
          \<longrightarrow> sent (snd (MarketService_ResolveBinary lib c id' outcome (Some p) w))
              = sent w @ [POST_request c (''/market/'' @ url_PathEscape lib id' @ ''/resolve'')
                  (Some (AnyMap [(''outcome'', JString outcome), (''probabilityInt'', JInt p)]))])
     \<and> MarketService_ResolveBinary lib c id' ''MKT'' (Some p) w
       = (if word_sle 0 p \<and> word_sle p 100
          then resolveMarket lib c id'
                 [(''outcome'', JString ''MKT''), (''probabilityInt'', JInt p)] w
          else (Inl (Errorf1 ''Market: ResolveBinary: %w'' OutOfRange), w))"
  by (simp only: ResolveBinary_not_MKT ResolveBinary_MKT) (simp add: resolveMarket_sent)

text \<open>Instances of C9: \<open>YES\<close> with -5, \<open>CANCEL\<close> with 150, and \<open>MKT\<close> with 150.\<close>

theorem resolve_binary_probability_witness:
  "''YES'' \<in> {''YES'', ''NO'', ''CANCEL''}
   \<and> fst (MarketService_ResolveBinary ok_lib ok_client ''m1'' ''YES'' (Some (-5)) w0) = Inr ()
   \<and> sent (snd (MarketService_ResolveBinary ok_lib ok_client ''m1'' ''YES'' (Some (-5)) w0))
       = [POST_request ok_client ''/market/m1/resolve''
           (Some (AnyMap [(''outcome'', JString ''YES''), (''probabilityInt'', JInt (-5))]))]
   \<and> sent (snd (MarketService_ResolveBinary ok_lib ok_client ''m1'' ''CANCEL'' (Some 150) w0))
       = [POST_request ok_client ''/market/m1/resolve''
           (Some (AnyMap [(''outcome'', JString ''CANCEL''), (''probabilityInt'', JInt 150)]))]
   \<and> MarketService_ResolveBinary ok_lib ok_client ''m1'' ''MKT'' (Some 150) w0
       = (Inl (Errorf1 ''Market: ResolveBinary: %w'' OutOfRange), w0)"
  using resolve_binary_probability [of "''YES''" ok_lib ok_client "''m1''" "-5" w0]
    resolve_binary_probability [of "''CANCEL''" ok_lib ok_client "''m1''" 150 w0]
  by (simp add: resolveMarket_def ok_lib_def ok_client_def w0_def POST_def do_request_def
      word_sle_eq)

text \<open>
  Signed successor and predecessor on 64-bit words: away from the largest and the smallest
  value they do not wrap, and \<open>[min + 1, max - 1]\<close> is the open interval.
\<close>

lemma sint_succ:
  fixes mn :: "64 word"
  assumes "mn \<noteq> 9223372036854775807"
  shows "sint (mn + 1) = sint mn + 1"
proof -
  have ub: "sint mn < 2 ^ 63" using sint_lt [of mn] by simp
  have lb: "- (2 ^ 63) \<le> sint mn" using sint_ge [of mn] by simp
  have "sint mn \<noteq> 9223372036854775807"
  proof
    assume "sint mn = 9223372036854775807"
    then have "word_of_int (sint mn) = (word_of_int 9223372036854775807 :: 64 word)" by simp
    then show False using assms by simp
  qed
  with ub have "sint mn + 1 < 2 ^ 63" by simp
  with lb show ?thesis
    by (simp add: sint_word_ariths signed_take_bit_int_eq_self)
qed

lemma sint_pred:
  fixes mx :: "64 word"
  assumes "mx \<noteq> - 9223372036854775808"
  shows "sint (mx - 1) = sint mx - 1"
proof -
  have ub: "sint mx < 2 ^ 63" using sint_lt [of mx] by simp
  have lb: "- (2 ^ 63) \<le> sint mx" using sint_ge [of mx] by simp
  have "sint mx \<noteq> - 9223372036854775808"
  proof
    assume "sint mx = - 9223372036854775808"
    then have "word_of_int (sint mx) = (word_of_int (- 9223372036854775808) :: 64 word)" by simp
    then show False using assms by simp
  qed
  with lb have "- (2 ^ 63) \<le> sint mx - 1" by simp
  with ub show ?thesis
    by (simp add: sint_word_ariths signed_take_bit_int_eq_self)
qed

lemma strictly_between:
  fixes mn mx iv :: "64 word"
  assumes "mn \<noteq> 9223372036854775807" and "mx \<noteq> - 9223372036854775808"
  shows "(word_sle (mn + 1) iv \<and> word_sle iv (mx - 1)) = (word_sless mn iv \<and> word_sless iv mx)"
  using sint_succ [OF assms(1)] sint_pred [OF assms(2)]
  by (auto simp: word_sle_eq word_sless_alt)

lemma createMarket_error:
  "createMarket lib c params w \<noteq> (Inl (Errorf1 ''Market: CreatePseudoNumeric: %w'' e), w')"
  by (simp add: createMarket_def split: prod.splits sum.splits)

lemma CreatePseudoNumeric_rejects:
  assumes "\<not> (word_sle (mn + 1) initialValue \<and> word_sle initialValue (mx - 1))"
  shows "MarketService_CreatePseudoNumeric lib c question mn mx initialValue isLogScale
      description closeTime visibility extraLiquidity w
     = (Inl (Errorf1 ''Market: CreatePseudoNumeric: %w'' OutOfRange), w)"
proof -
  have "checkInRange_int initialValue (mn + 1) (mx - 1) = Some OutOfRange"
    using assms by (simp add: checkInRange_int_eq)
  then show ?thesis
    by (simp add: MarketService_CreatePseudoNumeric_def)
qed

lemma CreatePseudoNumeric_no_range_error:
  "word_sle (mn + 1) initialValue \<Longrightarrow> word_sle initialValue (mx - 1) \<Longrightarrow>
   MarketService_CreatePseudoNumeric lib c question mn mx initialValue isLogScale description
      closeTime visibility extraLiquidity w
     \<noteq> (Inl (Errorf1 ''Market: CreatePseudoNumeric: %w'' OutOfRange), w)"
  by (simp add: MarketService_CreatePseudoNumeric_def checkInRange_int_eq checkOneOf_eq Let_def
      createMarket_error split: option.splits)

lemma CreatePseudoNumeric_passes:
  "word_sle (mn + 1) initialValue \<Longrightarrow> word_sle initialValue (mx - 1) \<Longrightarrow>
   \<not> validation_error (MarketService_CreatePseudoNumeric lib c question mn mx initialValue
        isLogScale description None None extraLiquidity w)"
  by (simp add: MarketService_CreatePseudoNumeric_def checkInRange_int_eq Let_def)

text \<open>
  Claim C7 says that \<open>CreatePseudoNumeric\<close> accepts \<open>initialValue\<close> only when it lies
  strictly between \<open>min\<close> and \<open>max\<close>, as the docstring does (\<open>between min and max\<close>). The
  code checks \<open>checkInRange(initialValue, min+1, max-1)\<close> on \<open>int\<close>s, and \<open>max - 1\<close> wraps:
  with \<open>min = 0\<close> and \<open>max\<close> the smallest \<open>int\<close>, \<open>max - 1\<close> is the largest \<open>int\<close>, and the
  initial value 5, which is not strictly between \<open>min\<close> and \<open>max\<close>, passes validation; the
  POST is sent.
\<close>

theorem pseudo_numeric_wraparound:
  "\<not> (word_sless 0 (5 :: go_int) \<and> word_sless (5 :: go_int) (- 9223372036854775808))
   \<and> fst (MarketService_CreatePseudoNumeric ok_lib ok_client ''q'' 0 (- 9223372036854775808) 5
             False None None None None w0) = Inr ()
   \<and> length (sent (snd (MarketService_CreatePseudoNumeric ok_lib ok_client ''q'' 0
             (- 9223372036854775808) 5 False None None None None w0))) = 1"
  by (simp add: MarketService_CreatePseudoNumeric_def checkInRange_def word_sless_alt
      set_opt_def createMarket_def ok_lib_def ok_client_def w0_def POST_def do_request_def)

text \<open>
  Away from that wrap-around the check is the strict one. When \<open>min\<close> is not the largest
  \<open>int\<close> and \<open>max\<close> is not the smallest, \<open>CreatePseudoNumeric\<close> returns its range error,
  with nothing sent, exactly when \<open>initialValue\<close> is not strictly between \<open>min\<close> and
  \<open>max\<close>; the accepted set is the closed interval \<open>[min + 1, max - 1]\<close>. A value strictly
  between passes validation when no close time and no visibility are given.
\<close>

theorem pseudo_numeric_initial_value:
  assumes "mn \<noteq> 9223372036854775807" and "mx \<noteq> - 9223372036854775808"
  shows "((MarketService_CreatePseudoNumeric lib c question mn mx initialValue isLogScale
            description closeTime visibility extraLiquidity w
           = (Inl (Errorf1 ''Market: CreatePseudoNumeric: %w'' OutOfRange), w))
          = (\<not> (word_sless mn initialValue \<and> word_sless initialValue mx)))
   \<and> (word_sless mn initialValue \<and> word_sless initialValue mx \<longrightarrow>
        \<not> validation_error (MarketService_CreatePseudoNumeric lib c question mn mx initialValue
             isLogScale description None None extraLiquidity w))"
proof -
  have eq: "(word_sless mn initialValue \<and> word_sless initialValue mx)
      = (word_sle (mn + 1) initialValue \<and> word_sle initialValue (mx - 1))"
    by (rule strictly_between [OF assms, symmetric])
  show ?thesis
    unfolding eq
    using CreatePseudoNumeric_rejects [of mn initialValue mx lib c question isLogScale
        description closeTime visibility extraLiquidity w]
      CreatePseudoNumeric_no_range_error [of mn initialValue mx lib c question isLogScale
        description closeTime visibility extraLiquidity w]
      CreatePseudoNumeric_passes [of mn initialValue mx lib c question isLogScale
        description extraLiquidity w]
    by blast
qed

text \<open>
  Instances with \<open>min = 0\<close> and \<open>max = 10\<close>: the initial values 0 and 10 fail, and 5, 1
  and 9 pass.
\<close>

theorem pseudo_numeric_initial_value_witness:
  "(0 :: go_int) \<noteq> 9223372036854775807 \<and> (10 :: go_int) \<noteq> - 9223372036854775808
   \<and> MarketService_CreatePseudoNumeric ok_lib ok_client ''q'' 0 10 0 False None None None None w0
       = (Inl (Errorf1 ''Market: CreatePseudoNumeric: %w'' OutOfRange), w0)
   \<and> MarketService_CreatePseudoNumeric ok_lib ok_client ''q'' 0 10 10 False None None None None w0
       = (Inl (Errorf1 ''Market: CreatePseudoNumeric: %w'' OutOfRange), w0)
   \<and> \<not> validation_error
        (MarketService_CreatePseudoNumeric ok_lib ok_client ''q'' 0 10 5 False None None None None w0)
   \<and> \<not> validation_error
        (MarketService_CreatePseudoNumeric ok_lib ok_client ''q'' 0 10 1 False None None None None w0)
   \<and> \<not> validation_error
        (MarketService_CreatePseudoNumeric ok_lib ok_client ''q'' 0 10 9 False None None None None w0)"
  using pseudo_numeric_initial_value [of 0 10 ok_lib ok_client "''q''" 0 False None None None None w0]
    pseudo_numeric_initial_value [of 0 10 ok_lib ok_client "''q''" 10 False None None None None w0]
    pseudo_numeric_initial_value [of 0 10 ok_lib ok_client "''q''" 5 False None None None None w0]
    pseudo_numeric_initial_value [of 0 10 ok_lib ok_client "''q''" 1 False None None None None w0]
    pseudo_numeric_initial_value [of 0 10 ok_lib ok_client "''q''" 9 False None None None None w0]
  by (simp add: word_sless_alt)

text \<open>
  The transport does not read the status code, returns the body of a response whose body
  can be read, and fails in \<open>do_request\<close> only when \<open>HTTPClient.Do\<close> or the read fails.
\<close>

lemma do_request_with_status:
  "do_request (with_status code c) req w = do_request c req w"
  by (simp add: do_request_def with_status_def split: sum.splits)

lemma requests_with_status:
  "GET_request (with_status code c) ep params = GET_request c ep params"
  "POST_request (with_status code c) ep b = POST_request c ep b"
  by (simp_all add: GET_request_def POST_request_def auth_header_def with_status_def)

lemma BaseURL_with_status: "BaseURL (with_status code c) = BaseURL c"
  by (simp add: with_status_def)

lemma GET_status_blind: "GET lib (with_status code c) ep params w = GET lib c ep params w"
  by (simp add: GET_def requests_with_status do_request_with_status BaseURL_with_status
      split: option.splits)

lemma POST_status_blind: "POST lib (with_status code c) ep b w = POST lib c ep b w"
  by (simp add: POST_def requests_with_status do_request_with_status BaseURL_with_status
      split: option.splits)

lemma do_request_ok:
  "HTTPClient c req = Inr resp \<Longrightarrow> ReadAll resp = Inr bytes \<Longrightarrow>
   do_request c req w = (Inr bytes, w\<lparr>sent := sent w @ [req]\<rparr>)"
  by (simp add: do_request_def)

lemma do_request_error:
  "do_request c req w = (Inl e, w') \<Longrightarrow>
   isl (HTTPClient c req) \<or> (\<exists>resp. HTTPClient c req = Inr resp \<and> isl (ReadAll resp))"
  by (auto simp: do_request_def Let_def split: sum.splits)

text \<open>
  Claim C5, as stated, fails for \<open>POST\<close>: a body that \<open>json.Marshal\<close> cannot encode (here
  the managram body with the amount NaN) makes \<open>POST\<close> return an error although the URL
  is well formed and the HTTP client would answer; no request is executed at all.
\<close>

theorem post_marshal_failure_counterexample:
  "http_NewRequest ok_lib (BaseURL ok_client @ ''/managram'') = None
   \<and> \<not> isl (HTTPClient ok_client (POST_request ok_client ''/managram''
             (Some (Managram_body (Some [''u1'']) NaN None))))
   \<and> POST ok_lib ok_client ''/managram'' (Some (Managram_body (Some [''u1'']) NaN None)) w0
       = (Inl (External ''json: unsupported value''), w0)"
  by (simp add: POST_def Managram_body_def set_opt_def ok_lib_def ok_client_def)

text \<open>
  Claim C5, amended. \<open>GET\<close> returns an error only when the URL is malformed, when
  \<open>HTTPClient.Do\<close> fails or when reading the response body fails; \<open>POST\<close> returns an error
  only in those cases or when its body cannot be marshalled to JSON. For every response
  whose body is read, whatever its status code, both return the raw body bytes and no
  error, and their result is the same under every choice of status codes.
\<close>

theorem transport_errors:
  "(GET lib c endpoint params w = (Inl e, w') \<longrightarrow>
      http_NewRequest lib (BaseURL c @ endpoint) \<noteq> None
      \<or> isl (HTTPClient c (GET_request c endpoint params))
      \<or> (\<exists>resp. HTTPClient c (GET_request c endpoint params) = Inr resp \<and> isl (ReadAll resp)))
   \<and> (POST lib c endpoint b w = (Inl e, w') \<longrightarrow>
      (\<exists>v. b = Some v \<and> json_Marshal v \<noteq> None)
      \<or> http_NewRequest lib (BaseURL c @ endpoint) \<noteq> None
      \<or> isl (HTTPClient c (POST_request c endpoint b))
      \<or> (\<exists>resp. HTTPClient c (POST_request c endpoint b) = Inr resp \<and> isl (ReadAll resp)))
   \<and> (http_NewRequest lib (BaseURL c @ endpoint) = None
        \<and> HTTPClient c (GET_request c endpoint params) = Inr resp \<and> ReadAll resp = Inr bytes \<longrightarrow>
      GET lib c endpoint params w
        = (Inr bytes, w\<lparr>sent := sent w @ [GET_request c endpoint params]\<rparr>))
   \<and> ((case b of None \<Rightarrow> None | Some v \<Rightarrow> json_Marshal v) = None
        \<and> http_NewRequest lib (BaseURL c @ endpoint) = None
        \<and> HTTPClient c (POST_request c endpoint b) = Inr resp \<and> ReadAll resp = Inr bytes \<longrightarrow>
      POST lib c endpoint b w
        = (Inr bytes, w\<lparr>sent := sent w @ [POST_request c endpoint b]\<rparr>))
   \<and> GET lib (with_status code c) endpoint params w = GET lib c endpoint params w
   \<and> POST lib (with_status code c) endpoint b w = POST lib c endpoint b w"
proof -
  have g: "GET lib c endpoint params w = (Inl e, w') \<Longrightarrow>
      http_NewRequest lib (BaseURL c @ endpoint) \<noteq> None
      \<or> isl (HTTPClient c (GET_request c endpoint params))
      \<or> (\<exists>resp. HTTPClient c (GET_request c endpoint params) = Inr resp \<and> isl (ReadAll resp))"
    by (cases "http_NewRequest lib (BaseURL c @ endpoint)")
      (auto simp: GET_def dest: do_request_error)
  have p: "POST lib c endpoint b w = (Inl e, w') \<Longrightarrow>
      (\<exists>v. b = Some v \<and> json_Marshal v \<noteq> None)
      \<or> http_NewRequest lib (BaseURL c @ endpoint) \<noteq> None
      \<or> isl (HTTPClient c (POST_request c endpoint b))
      \<or> (\<exists>resp. HTTPClient c (POST_request c endpoint b) = Inr resp \<and> isl (ReadAll resp))"
    by (cases "http_NewRequest lib (BaseURL c @ endpoint)"; cases b)
      (auto simp: POST_def split: option.splits dest: do_request_error)
  show ?thesis
    using g p
    by (simp add: GET_status_blind POST_status_blind)
      (simp add: GET_def POST_def do_request_ok)
qed

text \<open>Instances of C5 (amended): a \<open>GET\<close> and a \<open>POST\<close> answered with status 404.\<close>

theorem transport_errors_witness:
  "GET ok_lib not_found_client ''/market/xyz'' [] w0
     = (Inr ''{error:not found}'',
        w0\<lparr>sent := sent w0 @ [GET_request not_found_client ''/market/xyz'' []]\<rparr>)
   \<and> POST ok_lib not_found_client ''/bet/cancel/b1'' None w0
     = (Inr ''{error:not found}'',
        w0\<lparr>sent := sent w0 @ [POST_request not_found_client ''/bet/cancel/b1'' None]\<rparr>)
   \<and> StatusCode \<lparr>StatusCode = 404, ReadAll = Inr ''{error:not found}''\<rparr> = 404"
  using transport_errors [of ok_lib not_found_client "''/market/xyz''" "[]" w0 _ _ None
      "\<lparr>StatusCode = 404, ReadAll = Inr ''{error:not found}''\<rparr>" "''{error:not found}''"]
    transport_errors [of ok_lib not_found_client "''/bet/cancel/b1''" "[]" w0 _ _ None
      "\<lparr>StatusCode = 404, ReadAll = Inr ''{error:not found}''\<rparr>" "''{error:not found}''"]
  by (simp add: ok_lib_def not_found_client_def)

end
